theory Spec2Isabelle
  imports Main "HOL-Library.Word"
begin

unbundle bit_operations_syntax

section \<open>The DirtyJTAG SPI programmer (dirtyjtag_spi.c)\<close>

text \<open>
  A shallow embedding of \<^verbatim>\<open>dirtyjtag_spi.c\<close>. The C types are read on an LP64 platform:
  \<^verbatim>\<open>unsigned int\<close> is a \<open>32 word\<close>, \<^verbatim>\<open>unsigned long\<close> a \<open>64 word\<close>, \<^verbatim>\<open>uint8_t\<close> an
  \<open>8 word\<close>. Values of type \<^verbatim>\<open>size_t\<close> are natural numbers; they are all computed from one
  32-bit value and stay far below \<open>2 ^ 64\<close> (lemma \<open>size_t_values_fit\<close>). The values of type
  \<^verbatim>\<open>int\<close> are status codes and byte counts that libusb hands back; they are integers.
  Diagnostic output (\<^verbatim>\<open>msg_perr\<close>, \<^verbatim>\<open>msg_pwarn\<close>) is not part of the model.
\<close>

type_synonym byte = "8 word"

subsection \<open>Constants (lines 42-63)\<close>

definition dirtyjtag_write_endpoint :: byte where
  "dirtyjtag_write_endpoint = 0x01"

definition dirtyjtag_read_endpoint :: byte where
  "dirtyjtag_read_endpoint = 0x82"

definition dirtyjtag_timeout :: int where
  "dirtyjtag_timeout = 100 * 10"

definition CMD_STOP :: byte where "CMD_STOP = 0x00"
definition CMD_INFO :: byte where "CMD_INFO = 0x01"
definition CMD_FREQ :: byte where "CMD_FREQ = 0x02"
definition CMD_XFER :: byte where "CMD_XFER = 0x03"
definition CMD_SETSIG :: byte where "CMD_SETSIG = 0x04"
definition CMD_GETSIG :: byte where "CMD_GETSIG = 0x05"
definition CMD_CLK :: byte where "CMD_CLK = 0x06"

definition SIG_TCK :: byte where "SIG_TCK = push_bit 1 1"
definition SIG_TDI :: byte where "SIG_TDI = push_bit 2 1"
definition SIG_TDO :: byte where "SIG_TDO = push_bit 3 1"
definition SIG_TMS :: byte where "SIG_TMS = push_bit 4 1"
definition SIG_TRST :: byte where "SIG_TRST = push_bit 5 1"
definition SIG_SRST :: byte where "SIG_SRST = push_bit 6 1"

subsection \<open>The USB transport\<close>

text \<open>
  \<^verbatim>\<open>libusb_bulk_transfer\<close> belongs to libusb, not to this file. The bus and the probe are the
  environment: \<open>device u k\<close> is what the \<open>k\<close>-th bulk transfer of the session comes back
  with (libusb's return code, the count stored through \<^verbatim>\<open>&transferred\<close>, and for a transfer
  towards the host the bytes delivered, by offset). The state keeps the list of the bulk
  transfers requested so far: endpoint, bytes handed over for sending, length argument and
  timeout argument. An endpoint address with bit 7 set is an IN endpoint; an IN transfer
  overwrites the front of the caller's buffer and leaves the rest as it was.
\<close>

datatype xfer_result =
  Xfer (xfer_ret: int) (xfer_transferred: int) (xfer_incoming: "nat \<Rightarrow> byte")

datatype bulk_call =
  BulkCall (endpoint: byte) (sent: "byte list") (length_arg: nat) (timeout_arg: int)

record usb =
  device :: "nat \<Rightarrow> xfer_result"
  calls :: "bulk_call list"

definition libusb_bulk_transfer ::
  "usb \<Rightarrow> byte \<Rightarrow> byte list \<Rightarrow> nat \<Rightarrow> int \<Rightarrow> int \<times> int \<times> byte list \<times> usb" where
  "libusb_bulk_transfer u ep data len tmo =
     (let r = device u (length (calls u));
          n = min (nat (xfer_transferred r)) len;
          data' = (if bit ep 7 then map (xfer_incoming r) [0..<n] @ drop n data else data);
          u' = u\<lparr>calls := calls u @ [BulkCall ep (if bit ep 7 then [] else take len data) len tmo]\<rparr>
      in (xfer_ret r, xfer_transferred r, data', u'))"

text \<open>\<^verbatim>\<open>dirtyjtag_send\<close> (lines 65-84): the status code and the transport afterwards.\<close>

definition dirtyjtag_send :: "usb \<Rightarrow> byte list \<Rightarrow> nat \<Rightarrow> int \<times> usb" where
  "dirtyjtag_send u data len =
     (case libusb_bulk_transfer u dirtyjtag_write_endpoint data len dirtyjtag_timeout of
        (ret, transferred, _, u') \<Rightarrow>
          if ret \<noteq> 0 then (-1, u')
          else if transferred \<noteq> int len then (-1, u')
          else (0, u'))"

text \<open>
  \<^verbatim>\<open>dirtyjtag_receive\<close> (lines 86-106): the status code or byte count, the buffer afterwards
  and the transport afterwards.
\<close>

definition dirtyjtag_receive :: "usb \<Rightarrow> byte list \<Rightarrow> nat \<Rightarrow> int \<Rightarrow> int \<times> byte list \<times> usb" where
  "dirtyjtag_receive u data buffer_len expected =
     (case libusb_bulk_transfer u dirtyjtag_read_endpoint data buffer_len dirtyjtag_timeout of
        (ret, transferred, data', u') \<Rightarrow>
          if ret \<noteq> 0 then (-1, data', u')
          else if expected \<noteq> -1 \<and> transferred \<noteq> expected then (-1, data', u')
          else (transferred, data', u'))"

subsection \<open>Memory\<close>

text \<open>
  Buffers are byte lists. \<open>memcpy dst doff src soff n\<close> is C's
  \<^verbatim>\<open>memcpy(dst + doff, src + soff, n)\<close>; it is the C call only when both ranges lie inside
  their buffers (\<open>memcpy_in_bounds\<close>). Lemma \<open>send_command_copies_in_bounds\<close> shows that
  every copy of the SPI command does.

  \<^verbatim>\<open>malloc\<close> either fails (\<open>None\<close>) or returns a block whose contents are indeterminate:
  the environment supplies them, by offset. The same holds for the uninitialised local
  array \<^verbatim>\<open>readout_buffer\<close> of every loop iteration.
\<close>

definition memcpy :: "byte list \<Rightarrow> nat \<Rightarrow> byte list \<Rightarrow> nat \<Rightarrow> nat \<Rightarrow> byte list" where
  "memcpy dst doff src soff n = take doff dst @ take n (drop soff src) @ drop (doff + n) dst"

definition memcpy_in_bounds :: "byte list \<Rightarrow> nat \<Rightarrow> byte list \<Rightarrow> nat \<Rightarrow> nat \<Rightarrow> bool" where
  "memcpy_in_bounds dst doff src soff n \<longleftrightarrow> doff + n \<le> length dst \<and> soff + n \<le> length src"

record mem_env =
  tx_malloc :: "(nat \<Rightarrow> byte) option"
  rx_malloc :: "(nat \<Rightarrow> byte) option"
  readout_stack :: "nat \<Rightarrow> nat \<Rightarrow> byte"

definition malloc :: "(nat \<Rightarrow> byte) option \<Rightarrow> nat \<Rightarrow> byte list option" where
  "malloc block n = map_option (\<lambda>g. map g [0..<n]) block"

subsection \<open>The SPI command (lines 121-168)\<close>

definition max_xfer_size :: nat where
  "max_xfer_size = 30"

text \<open>Lines 124-125: the total length, and the number of transfers.\<close>

definition xfer_len :: "32 word \<Rightarrow> 32 word \<Rightarrow> nat" where
  "xfer_len writecnt readcnt = unat (writecnt + readcnt)"

definition num_xfer :: "nat \<Rightarrow> nat" where
  "num_xfer len = (len + max_xfer_size - 1) div max_xfer_size"

text \<open>Lines 142-146: the size of transfer \<open>i\<close>.\<close>

definition txn_size :: "nat \<Rightarrow> nat \<Rightarrow> nat" where
  "txn_size len i =
     (if i = num_xfer len - 1 \<and> len mod max_xfer_size \<noteq> 0 then len mod max_xfer_size else 30)"

text \<open>Lines 140, 147, 148: the command buffer of transfer \<open>i\<close>.\<close>

definition command_buffer :: "byte list \<Rightarrow> nat \<Rightarrow> nat \<Rightarrow> byte list" where
  "command_buffer tx_buf len i =
     memcpy ((CMD_XFER # replicate 31 0)[1 := of_nat (txn_size len i * 8)])
       2 tx_buf (30 * i) (txn_size len i)"

text \<open>
  Lines 139-152: one iteration of the loop. The results of \<^verbatim>\<open>dirtyjtag_send\<close> and
  \<^verbatim>\<open>dirtyjtag_receive\<close> are dropped, as in the source.
\<close>

definition xfer_iteration ::
  "mem_env \<Rightarrow> byte list \<Rightarrow> nat \<Rightarrow> nat \<Rightarrow> byte list \<times> usb \<Rightarrow> byte list \<times> usb" where
  "xfer_iteration env tx_buf len i s =
     (case s of (rx_buf, u) \<Rightarrow>
        (case dirtyjtag_send u (command_buffer tx_buf len i) 32 of (_, u1) \<Rightarrow>
           (case dirtyjtag_receive u1 (map (readout_stack env i) [0..<32]) 32 32 of
              (_, readout_buffer, u2) \<Rightarrow>
                (memcpy rx_buf (i * 30) readout_buffer 0 (txn_size len i), u2))))"

text \<open>Lines 158-164.\<close>

definition tms_reset_buffer :: "byte list" where
  "tms_reset_buffer = [CMD_SETSIG, SIG_TMS, SIG_TMS, CMD_STOP]"

text \<open>
  \<^verbatim>\<open>dirtyjtag_djtag1_spi_send_command\<close>: the return value, the bytes copied to
  \<^verbatim>\<open>readarr\<close> (none on the early returns) and the transport afterwards. The definition
  is the C function for the calls in which \<open>writecnt + readcnt\<close> fits an
  \<^verbatim>\<open>unsigned int\<close> and \<^verbatim>\<open>writearr\<close> holds \<open>writecnt\<close> bytes. When the sum wraps, the
  copies of lines 138 and 153 leave their buffers and the C function has no defined
  result; nothing is claimed about such calls.
\<close>

definition dirtyjtag_djtag1_spi_send_command ::
  "mem_env \<Rightarrow> usb \<Rightarrow> 32 word \<Rightarrow> 32 word \<Rightarrow> byte list \<Rightarrow> int \<times> byte list \<times> usb" where
  "dirtyjtag_djtag1_spi_send_command env u writecnt readcnt writearr =
     (let len = xfer_len writecnt readcnt in
      case malloc (tx_malloc env) (max_xfer_size * num_xfer len) of
        None \<Rightarrow> (-1, [], u)
      | Some tx_buf0 \<Rightarrow>
         (case malloc (rx_malloc env) (max_xfer_size * num_xfer len) of
            None \<Rightarrow> (-1, [], u)
          | Some rx_buf0 \<Rightarrow>
             (let tx_buf = memcpy tx_buf0 0 writearr 0 (unat writecnt) in
              case fold (xfer_iteration env tx_buf len) [0..<num_xfer len] (rx_buf0, u) of
                (rx_buf, u1) \<Rightarrow>
                  (case dirtyjtag_send u1 tms_reset_buffer (length tms_reset_buffer) of
                     (_, u2) \<Rightarrow> (0, take (unat readcnt) (drop (unat writecnt) rx_buf), u2)))))"

subsection \<open>Initialisation (lines 188-318)\<close>

text \<open>
  \<^verbatim>\<open>strtoul\<close> and \<^verbatim>\<open>strcasecmp\<close> belong to the C library. \<open>strtoul_0 s\<close> is
  \<^verbatim>\<open>strtoul(s, &units, 0)\<close> as ISO C describes it for an \<^verbatim>\<open>unsigned long\<close> of 64 bits: white
  space, an optional sign, the base taken from the prefix (\<^verbatim>\<open>0x\<close> is 16, \<^verbatim>\<open>0\<close> is 8,
  otherwise 10), then the longest run of digits. The result is the value, the offset
  \<^verbatim>\<open>units - tmp\<close> of the first character not consumed (0 when nothing was converted),
  and whether \<^verbatim>\<open>errno\<close> was set (\<^verbatim>\<open>ERANGE\<close>, with the value \<^verbatim>\<open>ULONG_MAX\<close>).
  \<open>strcasecmp_eq a b\<close> is \<^verbatim>\<open>!strcasecmp(a, b)\<close>.
\<close>

definition isspace :: "char \<Rightarrow> bool" where
  "isspace c \<longleftrightarrow> c \<in> set [CHR '' '', CHR 0x09, CHR 0x0A, CHR 0x0B, CHR 0x0C, CHR 0x0D]"

definition tolower :: "char \<Rightarrow> char" where
  "tolower c = (if 65 \<le> (of_char c :: nat) \<and> (of_char c :: nat) \<le> 90
                then char_of ((of_char c :: nat) + 32) else c)"

definition strcasecmp_eq :: "string \<Rightarrow> string \<Rightarrow> bool" where
  "strcasecmp_eq a b \<longleftrightarrow> map tolower a = map tolower b"

definition digit_value :: "char \<Rightarrow> nat option" where
  "digit_value c =
     (let n = (of_char c :: nat) in
      if 48 \<le> n \<and> n \<le> 57 then Some (n - 48)
      else if 97 \<le> n \<and> n \<le> 122 then Some (n - 87)
      else if 65 \<le> n \<and> n \<le> 90 then Some (n - 55)
      else None)"

fun strtoul_digits :: "nat \<Rightarrow> string \<Rightarrow> int \<Rightarrow> int \<times> nat" where
  "strtoul_digits base [] acc = (acc, 0)"
| "strtoul_digits base (c # cs) acc =
     (case digit_value c of
        None \<Rightarrow> (acc, 0)
      | Some d \<Rightarrow>
          if d < base
          then (case strtoul_digits base cs (acc * int base + int d) of (v, k) \<Rightarrow> (v, Suc k))
          else (acc, 0))"

definition is_digit_in :: "nat \<Rightarrow> string \<Rightarrow> bool" where
  "is_digit_in base s =
     (case s of [] \<Rightarrow> False
      | c # _ \<Rightarrow> (case digit_value c of None \<Rightarrow> False | Some d \<Rightarrow> d < base))"

definition strtoul_0 :: "string \<Rightarrow> 64 word \<times> nat \<times> bool" where
  "strtoul_0 s =
     (let ws = length (takeWhile isspace s);
          s1 = drop ws s;
          neg = (take 1 s1 = ''-'');
          sg = (if take 1 s1 = ''-'' \<or> take 1 s1 = ''+'' then 1 else 0);
          s2 = drop sg s1;
          hex = ((take 2 s2 = ''0x'' \<or> take 2 s2 = ''0X'') \<and> is_digit_in 16 (drop 2 s2));
          base = (if hex then 16 else if take 1 s2 = ''0'' then 8 else 10);
          pre = (if hex then 2 else 0)
      in case strtoul_digits base (drop pre s2) 0 of
           (v, k) \<Rightarrow>
             if k = 0 then (0, 0, False)
             else if 2 ^ 64 \<le> v then (- 1, ws + sg + pre + k, True)
             else (if neg then - of_int v else of_int v, ws + sg + pre + k, False))"


text \<open>
  Lines 248-271: the unit suffix. \<open>units\<close> is the offset of the first character after
  the number, \<open>length s\<close> the offset of \<^verbatim>\<open>end\<close>. \<open>None\<close> is the \<^verbatim>\<open>return 1\<close> after
  "Invalid units".
\<close>

definition frequency_units :: "string \<Rightarrow> nat \<Rightarrow> 64 word \<Rightarrow> 64 word option" where
  "frequency_units s units freq =
     (if 0 < units \<and> units < length s then
        (if int units < int (length s) - 3 then None
         else if int units = int (length s) - 2 then
           (if strcasecmp_eq (drop units s) ''hz'' then Some freq else None)
         else if int units = int (length s) - 3 then
           (if strcasecmp_eq (drop units s) ''khz'' then Some (freq * 1000)
            else if strcasecmp_eq (drop units s) ''mhz'' then Some (freq * 1000000)
            else None)
         else None)
      else Some freq)"

text \<open>Lines 273-291: the range checks and the conversion to kHz.\<close>

definition frequency_range :: "64 word \<Rightarrow> 64 word option" where
  "frequency_range freq =
     (if freq = 0 then None
      else if freq < 1000 then None
      else if freq > 1000 * 65535 then None
      else Some (freq div 1000))"

text \<open>
  Lines 233-292: the value of \<^verbatim>\<open>freq\<close> that reaches the command frame, from the result of
  \<^verbatim>\<open>extract_programmer_param_str(cfg, "frequency")\<close>; \<open>None\<close> is \<^verbatim>\<open>return 1\<close>.
\<close>

definition frequency_khz :: "string option \<Rightarrow> 64 word option" where
  "frequency_khz tmp =
     (case tmp of
        None \<Rightarrow> Some 100
      | Some s \<Rightarrow>
         (case strtoul_0 s of
            (freq, units, err) \<Rightarrow>
              if err then None
              else (case frequency_units s units freq of
                      None \<Rightarrow> None
                    | Some freq' \<Rightarrow> frequency_range freq')))"

text \<open>
  What the surroundings of \<^verbatim>\<open>dirtyjtag_spi_init\<close> answer: libusb, \<^verbatim>\<open>calloc\<close>, the
  programmer parameter and \<^verbatim>\<open>register_spi_master\<close>. The result of
  \<^verbatim>\<open>libusb_set_auto_detach_kernel_driver\<close> only decides about a warning.
\<close>

record init_env =
  libusb_init_ret :: int
  device_opened :: bool
  auto_detach_ret :: int
  claim_interface_ret :: int
  calloc_ok :: bool
  frequency_param :: "string option"
  register_spi_master_ret :: int

text \<open>Lines 295-305.\<close>

definition init_commands :: "64 word \<Rightarrow> byte list" where
  "init_commands freq =
     [CMD_SETSIG,
      SIG_TDI OR SIG_TMS OR SIG_TCK OR SIG_SRST OR SIG_TRST,
      SIG_SRST OR SIG_TRST OR SIG_TMS,
      CMD_FREQ,
      ucast (drop_bit 8 freq AND 0xFF),
      ucast (freq AND 0xFF),
      CMD_STOP]"

text \<open>\<^verbatim>\<open>dirtyjtag_spi_init\<close>: the return value and the transport afterwards.\<close>

definition dirtyjtag_spi_init :: "init_env \<Rightarrow> usb \<Rightarrow> int \<times> usb" where
  "dirtyjtag_spi_init e u =
     (if libusb_init_ret e < 0 then (-1, u)
      else if \<not> device_opened e then (-1, u)
      else if claim_interface_ret e \<noteq> 0 then (-1, u)
      else if \<not> calloc_ok e then (-1, u)
      else
        (case frequency_khz (frequency_param e) of
           None \<Rightarrow> (1, u)
         | Some freq \<Rightarrow>
            (case dirtyjtag_send u (init_commands freq) (length (init_commands freq)) of
               (ret, u') \<Rightarrow>
                 if ret \<noteq> 0 then (-1, u') else (register_spi_master_ret e, u'))))"

subsection \<open>Notions used in the statements\<close>

text \<open>The bulk transfers requested between two states of the transport.\<close>

definition new_calls :: "usb \<Rightarrow> usb \<Rightarrow> bulk_call list" where
  "new_calls u u' = drop (length (calls u)) (calls u')"

text \<open>
  The transmit buffer after line 138, for a block whose contents at allocation were \<open>g\<close>.
\<close>

definition tx_buffer :: "(nat \<Rightarrow> byte) \<Rightarrow> 32 word \<Rightarrow> 32 word \<Rightarrow> byte list \<Rightarrow> byte list" where
  "tx_buffer g writecnt readcnt writearr =
     memcpy (map g [0..<max_xfer_size * num_xfer (xfer_len writecnt readcnt)])
       0 writearr 0 (unat writecnt)"

text \<open>The two bulk transfers of iteration \<open>i\<close>, and the one after the loop.\<close>

definition chunk_calls :: "byte list \<Rightarrow> nat \<Rightarrow> nat \<Rightarrow> bulk_call list" where
  "chunk_calls tx_buf len i =
     [BulkCall dirtyjtag_write_endpoint (take 32 (command_buffer tx_buf len i)) 32 dirtyjtag_timeout,
      BulkCall dirtyjtag_read_endpoint [] 32 dirtyjtag_timeout]"

definition reset_call :: bulk_call where
  "reset_call = BulkCall dirtyjtag_write_endpoint tms_reset_buffer 4 dirtyjtag_timeout"

text \<open>
  \<^verbatim>\<open>readout_buffer\<close> after the receive of iteration \<open>i\<close>, when the loop started in state
  \<open>u\<close>: that receive is bulk transfer number \<open>length (calls u) + 2 * i + 1\<close>.
\<close>

definition reply_buffer :: "mem_env \<Rightarrow> usb \<Rightarrow> nat \<Rightarrow> byte list" where
  "reply_buffer env u i =
     (let r = device u (length (calls u) + 2 * i + 1);
          n = min (nat (xfer_transferred r)) 32
      in map (xfer_incoming r) [0..<n] @ drop n (map (readout_stack env i) [0..<32]))"

definition received :: "mem_env \<Rightarrow> usb \<Rightarrow> nat \<Rightarrow> nat \<Rightarrow> byte list" where
  "received env u len k =
     concat (map (\<lambda>i. take (txn_size len i) (reply_buffer env u i)) [0..<k])"

text \<open>
  The reply to chunk \<open>i\<close> came in successfully: libusb reported no error and 32 bytes.
  \<open>reply_frame u i\<close> is that frame.
\<close>

definition reply_ok :: "usb \<Rightarrow> nat \<Rightarrow> bool" where
  "reply_ok u i \<longleftrightarrow>
     xfer_ret (device u (length (calls u) + 2 * i + 1)) = 0 \<and>
     xfer_transferred (device u (length (calls u) + 2 * i + 1)) = 32"

definition reply_frame :: "usb \<Rightarrow> nat \<Rightarrow> byte list" where
  "reply_frame u i = map (xfer_incoming (device u (length (calls u) + 2 * i + 1))) [0..<32]"

text \<open>
  The specification's chunking of a stream of \<open>tot\<close> bytes: \<open>ceil (tot / 30)\<close> chunks,
  each of length 30 except the last, whose length is \<open>tot mod 30\<close> when that is not
  zero; and the stream reassembled from the replies, the first bytes of the reply to chunk
  \<open>i\<close> appended in the order of the chunks.
\<close>

definition spec_num_chunks :: "nat \<Rightarrow> nat" where
  "spec_num_chunks tot = (if tot mod 30 = 0 then tot div 30 else tot div 30 + 1)"

definition spec_chunk_length :: "nat \<Rightarrow> nat \<Rightarrow> nat" where
  "spec_chunk_length tot i =
     (if Suc i = spec_num_chunks tot \<and> tot mod 30 \<noteq> 0 then tot mod 30 else 30)"

definition reassembled_stream :: "(nat \<Rightarrow> byte list) \<Rightarrow> nat \<Rightarrow> byte list" where
  "reassembled_stream replies tot =
     concat (map (\<lambda>i. take (spec_chunk_length tot i) (replies i)) [0..<spec_num_chunks tot])"

text \<open>
  The transfer frames among a list of bulk transfers, in the order they were sent, and the
  logical length (in bytes) that a frame declares in its bit-count byte.
\<close>

definition xfer_frames :: "bulk_call list \<Rightarrow> byte list list" where
  "xfer_frames cs =
     map sent (filter (\<lambda>c. endpoint c = dirtyjtag_write_endpoint \<and> take 1 (sent c) = [CMD_XFER]) cs)"

definition frame_length :: "byte list \<Rightarrow> nat" where
  "frame_length f = unat (f ! 1) div 8"

subsection \<open>Example environments\<close>

text \<open>
  Memory whose indeterminate bytes are \<open>0xEE\<close> (transmit block), \<open>0xDD\<close> (receive block)
  and \<open>0xCC\<close> (stack); a probe that answers every bulk transfer with 32 bytes; and a
  transport on which every bulk transfer fails.
\<close>

definition env_ex :: mem_env where
  "env_ex = \<lparr>tx_malloc = Some (\<lambda>_. 0xEE), rx_malloc = Some (\<lambda>_. 0xDD),
              readout_stack = (\<lambda>_ _. 0xCC)\<rparr>"

definition usb_ex :: usb where
  "usb_ex = \<lparr>device = (\<lambda>k. Xfer 0 32 (\<lambda>j. of_nat (32 * k + j))), calls = []\<rparr>"

definition usb_dead :: usb where
  "usb_dead = \<lparr>device = (\<lambda>k. Xfer (-1) 0 (\<lambda>j. 0)), calls = []\<rparr>"

text \<open>A probe whose reply to the first chunk is one byte short.\<close>

definition usb_short :: usb where
  "usb_short =
     \<lparr>device = (\<lambda>k. if k = 0 then Xfer 0 32 (\<lambda>j. 0)
                     else if k = 1 then Xfer 0 31 (\<lambda>j. 0x11)
                     else Xfer 0 4 (\<lambda>j. 0)),
      calls = []\<rparr>"

text \<open>Surroundings in which the initialisation reaches the frequency parameter.\<close>

definition init_ex :: init_env where
  "init_ex =
     \<lparr>libusb_init_ret = 0, device_opened = True, auto_detach_ret = 0, claim_interface_ret = 0,
      calloc_ok = True, frequency_param = None, register_spi_master_ret = 0\<rparr>"

section \<open>Properties\<close>

lemma size_t_values_fit:
  "xfer_len writecnt readcnt + max_xfer_size - 1 < 2 ^ 64"
  "max_xfer_size * num_xfer (xfer_len writecnt readcnt) < 2 ^ 64"
proof -
  have "unat (writecnt + readcnt) < 2 ^ 32"
    using unsigned_less [of "writecnt + readcnt"] by simp
  then have l: "xfer_len writecnt readcnt < 4294967296"
    by (simp add: xfer_len_def)
  then show "xfer_len writecnt readcnt + max_xfer_size - 1 < 2 ^ 64"
    by (simp add: max_xfer_size_def)
  have "30 * ((xfer_len writecnt readcnt + 29) div 30) \<le> xfer_len writecnt readcnt + 29"
    by simp
  with l show "max_xfer_size * num_xfer (xfer_len writecnt readcnt) < 2 ^ 64"
    by (simp add: max_xfer_size_def num_xfer_def)
qed

subsection \<open>Transfer sizes\<close>

lemma txn_size_bounds: "1 \<le> txn_size len i" "txn_size len i \<le> 30"
  by (simp_all add: txn_size_def max_xfer_size_def)

lemma command_buffer_bit_count:
  "command_buffer tx_buf len i ! 1 = of_nat (txn_size len i * 8)"
  by (simp add: command_buffer_def memcpy_def nth_append)

lemma unat_byte_of_nat: "n < 256 \<Longrightarrow> unat (of_nat n :: byte) = n"
  by (simp add: unat_of_nat)

text \<open>
  Claim C10. For every transaction (any \<open>writecnt\<close> and \<open>readcnt\<close>) and every transfer index
  \<open>i\<close>, so in particular for every chunk of a transaction of non-zero total length, the
  transfer size lies between 1 and 30, eight times it is at most 240, and the bit-count byte
  stored at index 1 of the command buffer, read as an unsigned number, is exactly eight
  times the transfer size: the conversion to \<^verbatim>\<open>uint8_t\<close> loses nothing.
\<close>

theorem txn_size_bit_count_fits:
  "1 \<le> txn_size (xfer_len writecnt readcnt) i \<and>
   txn_size (xfer_len writecnt readcnt) i \<le> 30 \<and>
   txn_size (xfer_len writecnt readcnt) i * 8 \<le> 240 \<and>
   unat (command_buffer tx_buf (xfer_len writecnt readcnt) i ! 1)
     = txn_size (xfer_len writecnt readcnt) i * 8"
proof -
  let ?t = "txn_size (xfer_len writecnt readcnt) i"
  have b: "1 \<le> ?t" "?t \<le> 30"
    by (rule txn_size_bounds)+
  then have "?t * 8 < 256"
    by simp
  then have "unat (of_nat (?t * 8) :: byte) = ?t * 8"
    by (rule unat_byte_of_nat)
  then have u: "unat (command_buffer tx_buf (xfer_len writecnt readcnt) i ! 1) = ?t * 8"
    by (simp only: command_buffer_bit_count)
  from b have "?t * 8 \<le> 240"
    by simp
  with b u show ?thesis
    by blast
qed

subsection \<open>The transport calls\<close>

lemma dirtyjtag_send_calls:
  "snd (dirtyjtag_send u data len) =
     u\<lparr>calls := calls u @ [BulkCall dirtyjtag_write_endpoint (take len data) len dirtyjtag_timeout]\<rparr>"
  by (simp add: dirtyjtag_send_def libusb_bulk_transfer_def Let_def dirtyjtag_write_endpoint_def)

lemma dirtyjtag_receive_effect:
  "snd (dirtyjtag_receive u data len expected) =
     (let r = device u (length (calls u)); n = min (nat (xfer_transferred r)) len
      in (map (xfer_incoming r) [0..<n] @ drop n data,
          u\<lparr>calls := calls u @ [BulkCall dirtyjtag_read_endpoint [] len dirtyjtag_timeout]\<rparr>))"
  by (simp add: dirtyjtag_receive_def libusb_bulk_transfer_def Let_def dirtyjtag_read_endpoint_def)

lemma length_reply_buffer: "length (reply_buffer env u i) = 32"
  by (simp add: reply_buffer_def Let_def)

lemma length_command_buffer:
  "30 * i + txn_size len i \<le> length tx_buf \<Longrightarrow> length (command_buffer tx_buf len i) = 32"
  using txn_size_bounds [of len i]
  by (simp add: command_buffer_def memcpy_def)

subsection \<open>The loop\<close>

lemma xfer_iteration_eq:
  "xfer_iteration env tx_buf len i (rx_buf, u) =
     (memcpy rx_buf (i * 30)
        (let r = device u (length (calls u) + 1); n = min (nat (xfer_transferred r)) 32
         in map (xfer_incoming r) [0..<n] @ drop n (map (readout_stack env i) [0..<32]))
        0 (txn_size len i),
      u\<lparr>calls := calls u @ chunk_calls tx_buf len i\<rparr>)"
proof -
  obtain c1 u1 where s: "dirtyjtag_send u (command_buffer tx_buf len i) 32 = (c1, u1)"
    by (cases "dirtyjtag_send u (command_buffer tx_buf len i) 32")
  have u1: "u1 = u\<lparr>calls := calls u @
      [BulkCall dirtyjtag_write_endpoint (take 32 (command_buffer tx_buf len i)) 32 dirtyjtag_timeout]\<rparr>"
    using dirtyjtag_send_calls [of u "command_buffer tx_buf len i" 32] s by simp
  obtain c2 rb u2
    where r: "dirtyjtag_receive u1 (map (readout_stack env i) [0..<32]) 32 32 = (c2, rb, u2)"
    by (cases "dirtyjtag_receive u1 (map (readout_stack env i) [0..<32]) 32 32")
  have "(rb, u2) = (let r = device u1 (length (calls u1)); n = min (nat (xfer_transferred r)) 32
      in (map (xfer_incoming r) [0..<n] @ drop n (map (readout_stack env i) [0..<32]),
          u1\<lparr>calls := calls u1 @ [BulkCall dirtyjtag_read_endpoint [] 32 dirtyjtag_timeout]\<rparr>))"
    using dirtyjtag_receive_effect [of u1 "map (readout_stack env i) [0..<32]" 32 32] r by simp
  then have rb: "rb = (let r = device u (length (calls u) + 1); n = min (nat (xfer_transferred r)) 32
         in map (xfer_incoming r) [0..<n] @ drop n (map (readout_stack env i) [0..<32]))"
    and u2: "u2 = u\<lparr>calls := calls u @ chunk_calls tx_buf len i\<rparr>"
    by (simp_all add: u1 Let_def chunk_calls_def)
  show ?thesis
    by (simp add: xfer_iteration_def s r rb u2)
qed

lemma num_xfer_cover: "len \<le> 30 * num_xfer len"
  unfolding num_xfer_def max_xfer_size_def by arith

lemma num_xfer_start: "i < num_xfer len \<Longrightarrow> 30 * i < len"
  unfolding num_xfer_def max_xfer_size_def by arith

lemma txn_size_inner: "Suc i < num_xfer len \<Longrightarrow> txn_size len i = 30"
  by (auto simp add: txn_size_def)

lemma num_xfer_div_mod:
  "num_xfer len = (if len mod 30 = 0 then len div 30 else Suc (len div 30))"
proof -
  have "len + 29 = (len mod 30 + 29) + 30 * (len div 30)"
    by simp
  then have "(len + 29) div 30 = (len mod 30 + 29) div 30 + len div 30"
    by (simp only: div_mult_self2)
  moreover have "(len mod 30 + 29) div 30 = (if len mod 30 = 0 then 0 else 1)"
    using mod_less_divisor [of 30 len] by (auto simp: div_nat_eqI)
  ultimately have "(len + 29) div 30 = (if len mod 30 = 0 then len div 30 else Suc (len div 30))"
    by (simp split: if_splits)
  moreover have "len + 30 - 1 = len + 29"
    by simp
  ultimately show ?thesis
    unfolding num_xfer_def max_xfer_size_def by (simp only:)
qed

lemma txn_size_last: "Suc i = num_xfer len \<Longrightarrow> 30 * i + txn_size len i = len"
  by (auto simp add: txn_size_def num_xfer_div_mod max_xfer_size_def split: if_splits)

lemma txn_size_sum:
  assumes "i < num_xfer len"
  shows "30 * i + txn_size len i = min (30 * Suc i) len"
proof (cases "Suc i = num_xfer len")
  case True
  then show ?thesis
    using txn_size_last [OF True] num_xfer_cover [of len] by simp
next
  case False
  with assms have "Suc i < num_xfer len" by simp
  then show ?thesis
    using txn_size_inner [of i len] num_xfer_start [of "Suc i" len] by simp
qed

lemma received_Suc:
  "received env u len (Suc k) = received env u len k @ take (txn_size len k) (reply_buffer env u k)"
  by (simp add: received_def)

lemma length_received:
  "k \<le> num_xfer len \<Longrightarrow> length (received env u len k) = min (30 * k) len"
proof (induction k)
  case 0
  then show ?case by (simp add: received_def)
next
  case (Suc k)
  then have k: "k < num_xfer len" by simp
  have "length (received env u len (Suc k)) = length (received env u len k) + txn_size len k"
    using txn_size_bounds [of len k] by (simp add: received_Suc length_reply_buffer)
  also have "\<dots> = 30 * k + txn_size len k"
    using Suc num_xfer_start [OF k] by simp
  finally show ?case
    using txn_size_sum [OF k] by simp
qed

lemma length_chunk_calls: "length (concat (map (chunk_calls tx_buf len) [0..<k])) = 2 * k"
  by (induction k) (simp_all add: chunk_calls_def)

lemma xfer_loop_eq:
  assumes "k \<le> num_xfer len" and "length rx_buf0 = 30 * num_xfer len"
  shows "fold (xfer_iteration env tx_buf len) [0..<k] (rx_buf0, u) =
     (received env u len k @ drop (min (30 * k) len) rx_buf0,
      u\<lparr>calls := calls u @ concat (map (chunk_calls tx_buf len) [0..<k])\<rparr>)"
  using assms(1)
proof (induction k)
  case 0
  then show ?case by (simp add: received_def)
next
  case (Suc k)
  then have k: "k < num_xfer len" by simp
  let ?u = "u\<lparr>calls := calls u @ concat (map (chunk_calls tx_buf len) [0..<k])\<rparr>"
  let ?rx = "received env u len k @ drop (min (30 * k) len) rx_buf0"
  have lr: "length (received env u len k) = 30 * k"
    using length_received [of k len env u] k num_xfer_start [OF k] by simp
  have mk: "min (30 * k) len = 30 * k"
    using num_xfer_start [OF k] by simp
  have lc: "length (calls ?u) = length (calls u) + 2 * k"
    by (simp add: length_chunk_calls)
  have rb: "(let r = device ?u (length (calls ?u) + 1); n = min (nat (xfer_transferred r)) 32
         in map (xfer_incoming r) [0..<n] @ drop n (map (readout_stack env k) [0..<32]))
       = reply_buffer env u k"
    by (simp only: lc) (simp add: reply_buffer_def)
  have step: "xfer_iteration env tx_buf len k (?rx, ?u) =
      (memcpy ?rx (k * 30) (reply_buffer env u k) 0 (txn_size len k),
       ?u\<lparr>calls := calls ?u @ chunk_calls tx_buf len k\<rparr>)"
    using xfer_iteration_eq [of env tx_buf len k ?rx ?u] by (simp only: rb)
  have cp: "memcpy ?rx (k * 30) (reply_buffer env u k) 0 (txn_size len k) =
      received env u len (Suc k) @ drop (min (30 * Suc k) len) rx_buf0"
    using txn_size_sum [OF k]
    by (simp add: memcpy_def received_Suc lr mk mult.commute add.commute)
  have "fold (xfer_iteration env tx_buf len) [0..<Suc k] (rx_buf0, u) =
      xfer_iteration env tx_buf len k (?rx, ?u)"
    using Suc by simp
  then show ?case
    by (simp only: step cp) simp
qed

subsection \<open>The whole command\<close>

lemma send_command_eq:
  assumes "tx_malloc env = Some g" and "rx_malloc env = Some h"
  shows "dirtyjtag_djtag1_spi_send_command env u writecnt readcnt writearr =
     (0,
      take (unat readcnt) (drop (unat writecnt)
        (received env u (xfer_len writecnt readcnt) (num_xfer (xfer_len writecnt readcnt)) @
         drop (xfer_len writecnt readcnt)
           (map h [0..<30 * num_xfer (xfer_len writecnt readcnt)]))),
      u\<lparr>calls := calls u @
         concat (map (chunk_calls (tx_buffer g writecnt readcnt writearr) (xfer_len writecnt readcnt))
                   [0..<num_xfer (xfer_len writecnt readcnt)]) @
         [reset_call]\<rparr>)"
proof -
  let ?len = "xfer_len writecnt readcnt"
  let ?n = "num_xfer ?len"
  let ?tx = "tx_buffer g writecnt readcnt writearr"
  have loop: "fold (xfer_iteration env ?tx ?len) [0..<?n] (map h [0..<30 * ?n], u) =
     (received env u ?len ?n @ drop (min (30 * ?n) ?len) (map h [0..<30 * ?n]),
      u\<lparr>calls := calls u @ concat (map (chunk_calls ?tx ?len) [0..<?n])\<rparr>)"
    by (rule xfer_loop_eq) simp_all
  have m: "min (30 * ?n) ?len = ?len"
    using num_xfer_cover [of ?len] by simp
  obtain c u2 where s: "dirtyjtag_send
      (u\<lparr>calls := calls u @ concat (map (chunk_calls ?tx ?len) [0..<?n])\<rparr>)
      tms_reset_buffer (length tms_reset_buffer) = (c, u2)"
    by (cases "dirtyjtag_send
      (u\<lparr>calls := calls u @ concat (map (chunk_calls ?tx ?len) [0..<?n])\<rparr>)
      tms_reset_buffer (length tms_reset_buffer)")
  have u2: "u2 = u\<lparr>calls := calls u @ concat (map (chunk_calls ?tx ?len) [0..<?n]) @ [reset_call]\<rparr>"
    using dirtyjtag_send_calls [of
      "u\<lparr>calls := calls u @ concat (map (chunk_calls ?tx ?len) [0..<?n])\<rparr>"
      tms_reset_buffer "length tms_reset_buffer"] s
    by (simp add: reset_call_def tms_reset_buffer_def)
  show ?thesis
    unfolding dirtyjtag_djtag1_spi_send_command_def Let_def
    by (simp add: assms malloc_def max_xfer_size_def tx_buffer_def [symmetric, unfolded max_xfer_size_def]
        loop [unfolded m] s u2 del: upt_Suc)
qed

subsection \<open>The terminating frame\<close>

lemma new_calls_append [simp]: "new_calls u (u\<lparr>calls := calls u @ cs\<rparr>) = cs"
  by (simp add: new_calls_def)

lemma command_buffer_take1: "take 1 (take 32 (command_buffer tx_buf len i)) = [CMD_XFER]"
  by (simp add: command_buffer_def memcpy_def)

lemma chunk_calls_not_reset:
  "filter (\<lambda>c. sent c = tms_reset_buffer) (concat (map (chunk_calls tx_buf len) [0..<k])) = []"
proof -
  have ne: "take 1 (take 32 (command_buffer tx_buf len i)) \<noteq> take 1 tms_reset_buffer" for i
    by (simp only: command_buffer_take1)
       (simp add: tms_reset_buffer_def CMD_XFER_def CMD_SETSIG_def)
  have "take 32 (command_buffer tx_buf len i) \<noteq> tms_reset_buffer" for i
  proof
    assume "take 32 (command_buffer tx_buf len i) = tms_reset_buffer"
    then have "take 1 (take 32 (command_buffer tx_buf len i)) = take 1 tms_reset_buffer"
      by (rule arg_cong)
    with ne [of i] show False
      by blast
  qed
  moreover have "[] \<noteq> tms_reset_buffer"
    by (simp add: tms_reset_buffer_def)
  ultimately show ?thesis
    by (induction k) (simp_all add: chunk_calls_def)
qed

text \<open>
  Claim C8. Take a call whose counts have a sum that fits an \<^verbatim>\<open>unsigned int\<close> and whose
  \<^verbatim>\<open>writearr\<close> holds \<open>writecnt\<close> bytes, so that every copy stays inside its buffer. When
  the call reaches the chunk loop (both allocations succeeded) it requests, whatever the
  transport answers, first the two bulk transfers of every chunk and then, as its last
  bulk transfer, one send of the four bytes set-signal, TMS, TMS, stop. That frame is sent
  exactly once: no other bulk transfer of the call carries these bytes. The call returns 0.
\<close>

theorem send_command_reset_sequence:
  assumes "tx_malloc env = Some g" and "rx_malloc env = Some h"
    and "unat writecnt + unat readcnt < 2 ^ 32"
    and "length writearr = unat writecnt"
  shows "fst (dirtyjtag_djtag1_spi_send_command env u writecnt readcnt writearr) = 0 \<and>
    new_calls u (snd (snd (dirtyjtag_djtag1_spi_send_command env u writecnt readcnt writearr))) =
      concat (map (chunk_calls (tx_buffer g writecnt readcnt writearr) (xfer_len writecnt readcnt))
                [0..<num_xfer (xfer_len writecnt readcnt)]) @
      [BulkCall dirtyjtag_write_endpoint [CMD_SETSIG, SIG_TMS, SIG_TMS, CMD_STOP] 4 dirtyjtag_timeout] \<and>
    filter (\<lambda>c. sent c = [CMD_SETSIG, SIG_TMS, SIG_TMS, CMD_STOP])
      (new_calls u (snd (snd (dirtyjtag_djtag1_spi_send_command env u writecnt readcnt writearr)))) =
      [BulkCall dirtyjtag_write_endpoint [CMD_SETSIG, SIG_TMS, SIG_TMS, CMD_STOP] 4 dirtyjtag_timeout]"
  using chunk_calls_not_reset [of "tx_buffer g writecnt readcnt writearr"
      "xfer_len writecnt readcnt" "num_xfer (xfer_len writecnt readcnt)"]
  by (simp add: send_command_eq [OF assms(1,2)] reset_call_def tms_reset_buffer_def del: upt_Suc)

theorem send_command_reset_sequence_witness:
  "tx_malloc env_ex = Some (\<lambda>_. 0xEE) \<and> rx_malloc env_ex = Some (\<lambda>_. 0xDD) \<and>
   unat (1 :: 32 word) + unat (1 :: 32 word) < 2 ^ 32 \<and>
   length [0x9F :: byte] = unat (1 :: 32 word) \<and>
   fst (dirtyjtag_djtag1_spi_send_command env_ex usb_dead 1 1 [0x9F]) = 0 \<and>
   new_calls usb_dead (snd (snd (dirtyjtag_djtag1_spi_send_command env_ex usb_dead 1 1 [0x9F]))) =
     [BulkCall 1 ([3, 16, 0x9F, 0xEE] @ replicate 28 0) 32 1000,
      BulkCall 0x82 [] 32 1000,
      BulkCall 1 [4, 16, 16, 0] 4 1000]"
proof -
  have a: "tx_malloc env_ex = Some (\<lambda>_. 0xEE)" and b: "rx_malloc env_ex = Some (\<lambda>_. 0xDD)"
    by (simp_all add: env_ex_def)
  have n: "num_xfer (xfer_len 1 1) = 1"
    by (simp add: num_xfer_def xfer_len_def max_xfer_size_def)
  have c: "chunk_calls (tx_buffer (\<lambda>_. 0xEE) 1 1 [0x9F]) (xfer_len 1 1) 0 =
     [BulkCall 1 ([3, 16, 0x9F, 0xEE] @ replicate 28 0) 32 1000, BulkCall 0x82 [] 32 1000]"
    by code_simp
  have d: "[CMD_SETSIG, SIG_TMS, SIG_TMS, CMD_STOP] = [4, 16, 16, 0]"
    by (simp add: CMD_SETSIG_def SIG_TMS_def CMD_STOP_def)
  have e: "unat (1 :: 32 word) + unat (1 :: 32 word) < 2 ^ 32"
    by simp
  have f: "length [0x9F :: byte] = unat (1 :: 32 word)"
    by simp
  show ?thesis
    using send_command_reset_sequence [OF a b e f, of usb_dead]
    by (simp add: a b n c d dirtyjtag_write_endpoint_def dirtyjtag_timeout_def)
qed


subsection \<open>The empty transaction\<close>

lemma num_xfer_0 [simp]: "num_xfer 0 = 0"
  by (simp add: num_xfer_def max_xfer_size_def)

text \<open>
  Claim C5, as stated, fails: with no byte to write and none to read the call still
  requests one bulk transfer, the send of the terminating frame.
\<close>

theorem send_command_empty_counterexample:
  "new_calls usb_ex (snd (snd (dirtyjtag_djtag1_spi_send_command env_ex usb_ex 0 0 []))) \<noteq> [] \<and>
   new_calls usb_ex (snd (snd (dirtyjtag_djtag1_spi_send_command env_ex usb_ex 0 0 []))) =
     [BulkCall 1 [4, 16, 16, 0] 4 1000]"
  by code_simp

text \<open>
  Claim C5, amended. When both (zero-size) allocations succeed, the transaction with
  \<open>writecnt = 0\<close> and \<open>readcnt = 0\<close> sends no transfer frame and receives nothing; its only
  bulk transfer is the send of the terminating frame; it returns 0 with an empty read
  result.
\<close>

theorem send_command_empty:
  assumes "tx_malloc env = Some g" and "rx_malloc env = Some h"
  shows "dirtyjtag_djtag1_spi_send_command env u 0 0 writearr =
     (0, [], u\<lparr>calls := calls u @
        [BulkCall dirtyjtag_write_endpoint [CMD_SETSIG, SIG_TMS, SIG_TMS, CMD_STOP] 4
           dirtyjtag_timeout]\<rparr>)"
  by (simp add: send_command_eq [OF assms] xfer_len_def reset_call_def tms_reset_buffer_def)

theorem send_command_empty_witness:
  "tx_malloc env_ex = Some (\<lambda>_. 0xEE) \<and> rx_malloc env_ex = Some (\<lambda>_. 0xDD) \<and>
   dirtyjtag_djtag1_spi_send_command env_ex usb_ex 0 0 [] =
     (0, [], usb_ex\<lparr>calls := [BulkCall 1 [4, 16, 16, 0] 4 1000]\<rparr>)"
proof -
  have a: "tx_malloc env_ex = Some (\<lambda>_. 0xEE)" and b: "rx_malloc env_ex = Some (\<lambda>_. 0xDD)"
    by (simp_all add: env_ex_def)
  have c: "calls usb_ex = []"
    by (simp add: usb_ex_def)
  show ?thesis
    using send_command_empty [OF a b, of usb_ex "[]"]
    by (simp add: a b c CMD_SETSIG_def SIG_TMS_def CMD_STOP_def dirtyjtag_write_endpoint_def
        dirtyjtag_timeout_def)
qed

subsection \<open>Chunking\<close>

lemma xfer_len_no_wrap:
  "unat writecnt + unat readcnt < 2 ^ 32 \<Longrightarrow> xfer_len writecnt readcnt = unat writecnt + unat readcnt"
  by (simp add: xfer_len_def unat_add_lem [THEN iffD1])

lemma num_xfer_spec: "num_xfer tot = spec_num_chunks tot"
  by (simp add: num_xfer_div_mod spec_num_chunks_def)

lemma txn_size_spec: "i < spec_num_chunks tot \<Longrightarrow> txn_size tot i = spec_chunk_length tot i"
  by (auto simp add: txn_size_def spec_chunk_length_def num_xfer_spec max_xfer_size_def)

lemma xfer_frames_chunk_calls:
  "xfer_frames (concat (map (chunk_calls tx_buf len) [0..<k]) @ [reset_call]) =
     map (\<lambda>i. take 32 (command_buffer tx_buf len i)) [0..<k]"
proof -
  have r: "xfer_frames (cs @ [reset_call]) = xfer_frames cs" for cs
    by (simp add: xfer_frames_def reset_call_def tms_reset_buffer_def CMD_SETSIG_def CMD_XFER_def)
  have c: "xfer_frames (cs @ chunk_calls tx_buf len i) =
      xfer_frames cs @ [take 32 (command_buffer tx_buf len i)]" for cs i
    using command_buffer_take1 [of tx_buf len i]
    by (simp add: xfer_frames_def chunk_calls_def dirtyjtag_write_endpoint_def
        dirtyjtag_read_endpoint_def)
  have "xfer_frames (concat (map (chunk_calls tx_buf len) [0..<k])) =
      map (\<lambda>i. take 32 (command_buffer tx_buf len i)) [0..<k]"
    by (induction k) (simp_all add: c, simp add: xfer_frames_def)
  then show ?thesis
    by (simp only: r)
qed

lemma frame_length_command_buffer:
  "frame_length (take 32 (command_buffer tx_buf len i)) = txn_size len i"
proof -
  have "txn_size len i * 8 < 256"
    using txn_size_bounds [of len i] by simp
  then have "unat (of_nat (txn_size len i * 8) :: byte) = txn_size len i * 8"
    by (rule unat_byte_of_nat)
  moreover have "take 32 (command_buffer tx_buf len i) ! 1 = of_nat (txn_size len i * 8)"
    by (simp add: command_buffer_def memcpy_def nth_append)
  ultimately show ?thesis
    by (simp only: frame_length_def)
qed

text \<open>
  Claim C1. For a write count \<open>w\<close> and a read count \<open>r\<close> whose sum fits an
  \<^verbatim>\<open>unsigned int\<close>, a call that reaches the loop sends exactly \<open>ceil ((w + r) / 30)\<close>
  transfer frames, the frame of chunk \<open>i\<close> at position \<open>i\<close>. The logical length declared
  by frame \<open>i\<close>, which is also the number of bytes copied into it, is 30, except for the
  last frame, where it is \<open>(w + r) mod 30\<close> when that is not zero.
\<close>

theorem send_command_chunking:
  assumes "tx_malloc env = Some g" and "rx_malloc env = Some h"
    and "unat writecnt + unat readcnt < 2 ^ 32"
  shows
    "xfer_frames (new_calls u
        (snd (snd (dirtyjtag_djtag1_spi_send_command env u writecnt readcnt writearr)))) =
       map (\<lambda>i. take 32 (command_buffer (tx_buffer g writecnt readcnt writearr)
                            (unat writecnt + unat readcnt) i))
         [0..<spec_num_chunks (unat writecnt + unat readcnt)] \<and>
     length (xfer_frames (new_calls u
        (snd (snd (dirtyjtag_djtag1_spi_send_command env u writecnt readcnt writearr))))) =
       spec_num_chunks (unat writecnt + unat readcnt) \<and>
     map frame_length (xfer_frames (new_calls u
        (snd (snd (dirtyjtag_djtag1_spi_send_command env u writecnt readcnt writearr))))) =
       map (spec_chunk_length (unat writecnt + unat readcnt))
         [0..<spec_num_chunks (unat writecnt + unat readcnt)] \<and>
     (\<forall>i < spec_num_chunks (unat writecnt + unat readcnt).
        txn_size (xfer_len writecnt readcnt) i =
          spec_chunk_length (unat writecnt + unat readcnt) i)"
proof -
  let ?tot = "unat writecnt + unat readcnt"
  let ?tx = "tx_buffer g writecnt readcnt writearr"
  let ?new = "new_calls u
     (snd (snd (dirtyjtag_djtag1_spi_send_command env u writecnt readcnt writearr)))"
  have len: "xfer_len writecnt readcnt = ?tot"
    using assms(3) by (rule xfer_len_no_wrap)
  have new: "?new = concat (map (chunk_calls ?tx ?tot) [0..<spec_num_chunks ?tot]) @ [reset_call]"
    by (simp add: send_command_eq [OF assms(1,2)] len num_xfer_spec del: upt_Suc)
  have fr: "xfer_frames ?new =
      map (\<lambda>i. take 32 (command_buffer ?tx ?tot i)) [0..<spec_num_chunks ?tot]"
    by (simp only: new xfer_frames_chunk_calls)
  have fl: "map frame_length (xfer_frames ?new) =
      map (spec_chunk_length ?tot) [0..<spec_num_chunks ?tot]"
    by (simp only: fr) (simp add: frame_length_command_buffer txn_size_spec del: upt_Suc)
  have "length (xfer_frames ?new) = spec_num_chunks ?tot"
    by (simp only: fr) simp
  with fr fl show ?thesis
    by (simp add: len txn_size_spec)
qed

theorem send_command_chunking_witness:
  "tx_malloc env_ex = Some (\<lambda>_. 0xEE) \<and> rx_malloc env_ex = Some (\<lambda>_. 0xDD) \<and>
   unat (2 :: 32 word) + unat (31 :: 32 word) < 2 ^ 32 \<and>
   length (xfer_frames (new_calls usb_ex
      (snd (snd (dirtyjtag_djtag1_spi_send_command env_ex usb_ex 2 31 [1, 2]))))) = 2 \<and>
   map frame_length (xfer_frames (new_calls usb_ex
      (snd (snd (dirtyjtag_djtag1_spi_send_command env_ex usb_ex 2 31 [1, 2]))))) = [30, 3]"
proof -
  have a: "tx_malloc env_ex = Some (\<lambda>_. 0xEE)" and b: "rx_malloc env_ex = Some (\<lambda>_. 0xDD)"
    by (simp_all add: env_ex_def)
  have c: "unat (2 :: 32 word) + unat (31 :: 32 word) < 2 ^ 32"
    by simp
  have n: "spec_num_chunks 33 = 2"
    by (simp add: spec_num_chunks_def)
  have l: "map (spec_chunk_length 33) [0..<2] = [30, 3]"
    by (simp add: spec_chunk_length_def n upt_rec)
  note th = send_command_chunking [OF a b c, of usb_ex "[1, 2]"]
  from th have "length (xfer_frames (new_calls usb_ex
      (snd (snd (dirtyjtag_djtag1_spi_send_command env_ex usb_ex 2 31 [1, 2]))))) =
      spec_num_chunks (unat (2 :: 32 word) + unat (31 :: 32 word))"
    by (rule conjunct2 [THEN conjunct1])
  moreover from th have "map frame_length (xfer_frames (new_calls usb_ex
      (snd (snd (dirtyjtag_djtag1_spi_send_command env_ex usb_ex 2 31 [1, 2]))))) =
      map (spec_chunk_length (unat (2 :: 32 word) + unat (31 :: 32 word)))
        [0..<spec_num_chunks (unat (2 :: 32 word) + unat (31 :: 32 word))]"
    by (rule conjunct2 [THEN conjunct2, THEN conjunct1])
  ultimately show ?thesis
    using a b by (simp add: n l)
qed

subsection \<open>The frame of one chunk\<close>

lemma command_buffer_nth_payload:
  assumes "30 * i + txn_size len i \<le> length tx_buf" and "j < txn_size len i"
  shows "command_buffer tx_buf len i ! (2 + j) = tx_buf ! (30 * i + j)"
  using assms by (simp add: command_buffer_def memcpy_def nth_append)

lemma command_buffer_nth_padding:
  assumes "30 * i + txn_size len i \<le> length tx_buf" and "2 + txn_size len i \<le> j" and "j < 32"
  shows "command_buffer tx_buf len i ! j = 0"
proof -
  let ?t = "txn_size len i"
  let ?dst = "(CMD_XFER # replicate 31 0)[1 := of_nat (?t * 8)]"
  let ?mid = "take ?t (drop (30 * i) tx_buf)"
  have t: "?t \<le> 30"
    by (rule txn_size_bounds)
  have lm: "length (take 2 ?dst @ ?mid) = 2 + ?t"
    using assms(1) by simp
  have "command_buffer tx_buf len i = (take 2 ?dst @ ?mid) @ drop (2 + ?t) ?dst"
    by (simp add: command_buffer_def memcpy_def)
  then have "command_buffer tx_buf len i ! j = drop (2 + ?t) ?dst ! (j - (2 + ?t))"
    using assms(2) by (simp only: nth_append lm) simp
  also have "\<dots> = ?dst ! j"
    using assms t by simp
  also have "\<dots> = 0"
    using assms by (cases j) (simp_all add: nth_Cons')
  finally show ?thesis .
qed

text \<open>
  Claim C7. The command buffer of a chunk that lies inside the transmit buffer has
  exactly 32 bytes: byte 0 is the transfer command \<open>0x03\<close>, byte 1 is eight times the
  chunk's length (at most 30), the following bytes are the chunk's bytes in order, and all
  the bytes after them are zero. The loop hands this buffer, with length 32, to the send.
\<close>

theorem command_buffer_layout:
  assumes "30 * i + txn_size len i \<le> length tx_buf"
  shows "length (command_buffer tx_buf len i) = 32 \<and>
    command_buffer tx_buf len i ! 0 = CMD_XFER \<and> CMD_XFER = 0x03 \<and>
    command_buffer tx_buf len i ! 1 = of_nat (txn_size len i * 8) \<and>
    (\<forall>j < txn_size len i. command_buffer tx_buf len i ! (2 + j) = tx_buf ! (30 * i + j)) \<and>
    (\<forall>j. 2 + txn_size len i \<le> j \<and> j < 32 \<longrightarrow> command_buffer tx_buf len i ! j = 0) \<and>
    new_calls u (snd (xfer_iteration env tx_buf len i (rx_buf, u))) ! 0 =
      BulkCall dirtyjtag_write_endpoint (command_buffer tx_buf len i) 32 dirtyjtag_timeout"
proof -
  have l: "length (command_buffer tx_buf len i) = 32"
    using assms by (rule length_command_buffer)
  have z: "command_buffer tx_buf len i ! 0 = CMD_XFER"
    by (simp add: command_buffer_def memcpy_def nth_append)
  have c: "new_calls u (snd (xfer_iteration env tx_buf len i (rx_buf, u))) ! 0 =
      BulkCall dirtyjtag_write_endpoint (command_buffer tx_buf len i) 32 dirtyjtag_timeout"
    by (simp add: xfer_iteration_eq chunk_calls_def l)
  show ?thesis
    using l z c command_buffer_bit_count [of tx_buf len i]
      command_buffer_nth_payload [OF assms] command_buffer_nth_padding [OF assms]
    by (simp add: CMD_XFER_def)
qed

theorem command_buffer_layout_witness:
  "30 * 1 + txn_size 33 1 \<le> length (map of_nat [0..<60] :: byte list) \<and>
   length (command_buffer (map of_nat [0..<60]) 33 1) = 32 \<and>
   command_buffer (map of_nat [0..<60]) 33 1 ! 0 = 3 \<and>
   command_buffer (map of_nat [0..<60]) 33 1 ! 1 = 24 \<and>
   command_buffer (map of_nat [0..<60]) 33 1 ! 2 = 30 \<and>
   command_buffer (map of_nat [0..<60]) 33 1 ! 4 = 32 \<and>
   command_buffer (map of_nat [0..<60]) 33 1 ! 5 = 0 \<and>
   command_buffer (map of_nat [0..<60]) 33 1 ! 31 = 0"
proof -
  let ?tx = "map of_nat [0..<60] :: byte list"
  have a: "30 * 1 + txn_size 33 1 \<le> length ?tx"
    using txn_size_bounds(2) [of 33 1] by simp
  have t: "txn_size 33 1 = 3"
    by (simp add: txn_size_def num_xfer_def max_xfer_size_def)
  note th = command_buffer_layout [OF a, of usb_ex env_ex "[]"]
  from th have l: "length (command_buffer ?tx 33 1) = 32"
    by blast
  from th have z: "command_buffer ?tx 33 1 ! 0 = 3"
    by simp
  from th have o: "command_buffer ?tx 33 1 ! 1 = of_nat (txn_size 33 1 * 8)"
    by blast
  from th have p: "j < txn_size 33 1 \<Longrightarrow> command_buffer ?tx 33 1 ! (2 + j) = ?tx ! (30 * 1 + j)" for j
    by blast
  from th have q: "2 + txn_size 33 1 \<le> j \<and> j < 32 \<Longrightarrow> command_buffer ?tx 33 1 ! j = 0" for j
    by blast
  show ?thesis
    using a l z o p [of 0] p [of 2] q [of 5] q [of 31] by (simp add: t [unfolded One_nat_def])
qed

subsection \<open>Reassembly\<close>

lemma reply_buffer_ok: "reply_ok u i \<Longrightarrow> reply_buffer env u i = reply_frame u i"
  by (simp add: reply_ok_def reply_buffer_def reply_frame_def)

lemma received_reassembled:
  assumes "\<forall>i < spec_num_chunks tot. reply_ok u i"
  shows "received env u tot (num_xfer tot) = reassembled_stream (reply_frame u) tot"
proof -
  have "take (txn_size tot i) (reply_buffer env u i) =
      take (spec_chunk_length tot i) (reply_frame u i)"
    if "i \<in> set [0..<spec_num_chunks tot]" for i
    using that assms by (simp add: txn_size_spec reply_buffer_ok)
  then have "map (\<lambda>i. take (txn_size tot i) (reply_buffer env u i)) [0..<spec_num_chunks tot] =
      map (\<lambda>i. take (spec_chunk_length tot i) (reply_frame u i)) [0..<spec_num_chunks tot]"
    by (rule map_cong [OF refl])
  then show ?thesis
    by (simp only: received_def reassembled_stream_def num_xfer_spec)
qed

lemma received_nth:
  "k \<le> num_xfer len \<Longrightarrow> p < length (received env u len k) \<Longrightarrow>
   received env u len k ! p = reply_buffer env u (p div 30) ! (p mod 30)"
proof (induction k)
  case 0
  then show ?case by (simp add: received_def)
next
  case (Suc k)
  then have k: "k < num_xfer len" and k': "k \<le> num_xfer len"
    by simp_all
  have lr: "length (received env u len k) = 30 * k"
    using length_received [OF k', of env u] num_xfer_start [OF k] by simp
  show ?case
  proof (cases "p < 30 * k")
    case True
    then show ?thesis
      using Suc.IH [OF k'] by (simp add: received_Suc nth_append lr)
  next
    case False
    from Suc.prems(2) have "p < 30 * k + txn_size len k"
      using txn_size_bounds [of len k] by (simp add: received_Suc lr length_reply_buffer)
    with False have b: "30 * k \<le> p" "p - 30 * k < txn_size len k" "p < 30 * k + 30"
      using txn_size_bounds(2) [of len k] by simp_all
    then have d: "p div 30 = k"
      by (simp add: div_nat_eqI mult.commute)
    then have m: "p mod 30 = p - 30 * k"
      using minus_mult_div_eq_mod [of p 30] by simp
    from False b show ?thesis
      by (simp add: received_Suc nth_append lr d m)
  qed
qed

text \<open>
  Claim C2. For a write count \<open>w\<close> and a read count \<open>r\<close> whose sum fits an
  \<^verbatim>\<open>unsigned int\<close>, when the reply to every chunk comes in successfully (no error, 32
  bytes), the bytes copied to \<^verbatim>\<open>readarr\<close> are the bytes \<open>[w, w + r)\<close> of the stream
  reassembled from the replies. Byte \<open>j\<close> of the result is byte \<open>(w + j) mod 30\<close> of the
  reply to chunk \<open>(w + j) div 30\<close>, wherever the boundary between written and read bytes
  falls.
\<close>

theorem send_command_reassembly:
  assumes "tx_malloc env = Some g" and "rx_malloc env = Some h"
    and "unat writecnt + unat readcnt < 2 ^ 32"
    and "\<forall>i < spec_num_chunks (unat writecnt + unat readcnt). reply_ok u i"
  shows
    "fst (snd (dirtyjtag_djtag1_spi_send_command env u writecnt readcnt writearr)) =
       take (unat readcnt) (drop (unat writecnt)
         (reassembled_stream (reply_frame u) (unat writecnt + unat readcnt))) \<and>
     length (fst (snd (dirtyjtag_djtag1_spi_send_command env u writecnt readcnt writearr))) =
       unat readcnt \<and>
     (\<forall>j < unat readcnt.
        fst (snd (dirtyjtag_djtag1_spi_send_command env u writecnt readcnt writearr)) ! j =
          reply_frame u ((unat writecnt + j) div 30) ! ((unat writecnt + j) mod 30))"
proof -
  let ?tot = "unat writecnt + unat readcnt"
  let ?rd = "fst (snd (dirtyjtag_djtag1_spi_send_command env u writecnt readcnt writearr))"
  let ?rcv = "received env u ?tot (num_xfer ?tot)"
  have len: "xfer_len writecnt readcnt = ?tot"
    using assms(3) by (rule xfer_len_no_wrap)
  have lr: "length ?rcv = ?tot"
    using length_received [of "num_xfer ?tot" ?tot env u] num_xfer_cover [of ?tot] by simp
  have rd: "?rd = take (unat readcnt) (drop (unat writecnt) ?rcv)"
    by (simp add: send_command_eq [OF assms(1,2)] len lr del: upt_Suc)
  have 1: "?rd = take (unat readcnt) (drop (unat writecnt)
      (reassembled_stream (reply_frame u) ?tot))"
    by (simp only: rd received_reassembled [OF assms(4)])
  have 2: "length ?rd = unat readcnt"
    by (simp add: rd lr)
  have 3: "?rd ! j = reply_frame u ((unat writecnt + j) div 30) ! ((unat writecnt + j) mod 30)"
    if j: "j < unat readcnt" for j
  proof -
    have p: "unat writecnt + j < length ?rcv"
      using j by (simp add: lr)
    have i: "(unat writecnt + j) div 30 < spec_num_chunks ?tot"
    proof -
      have "unat writecnt + j < 30 * num_xfer ?tot"
        using j num_xfer_cover [of ?tot] by simp
      then show ?thesis
        by (simp add: num_xfer_spec less_mult_imp_div_less mult.commute)
    qed
    have "?rd ! j = ?rcv ! (unat writecnt + j)"
      using j by (simp add: rd lr)
    also have "\<dots> = reply_buffer env u ((unat writecnt + j) div 30) ! ((unat writecnt + j) mod 30)"
      using p by (rule received_nth [OF le_refl])
    also have "\<dots> = reply_frame u ((unat writecnt + j) div 30) ! ((unat writecnt + j) mod 30)"
      using assms(4) i by (simp add: reply_buffer_ok)
    finally show ?thesis .
  qed
  from 1 2 3 show ?thesis
    by blast
qed

theorem send_command_reassembly_witness:
  "tx_malloc env_ex = Some (\<lambda>_. 0xEE) \<and> rx_malloc env_ex = Some (\<lambda>_. 0xDD) \<and>
   unat (29 :: 32 word) + unat (3 :: 32 word) < 2 ^ 32 \<and>
   spec_num_chunks (unat (29 :: 32 word) + unat (3 :: 32 word)) = 2 \<and>
   reply_ok usb_ex 0 \<and> reply_ok usb_ex 1 \<and>
   fst (snd (dirtyjtag_djtag1_spi_send_command env_ex usb_ex 29 3 (replicate 29 7))) = [61, 96, 97]"
proof -
  have a: "tx_malloc env_ex = Some (\<lambda>_. 0xEE)" and b: "rx_malloc env_ex = Some (\<lambda>_. 0xDD)"
    by (simp_all add: env_ex_def)
  have c: "unat (29 :: 32 word) + unat (3 :: 32 word) < 2 ^ 32"
    by simp
  have d: "\<forall>i < spec_num_chunks (unat (29 :: 32 word) + unat (3 :: 32 word)). reply_ok usb_ex i"
    by (simp add: reply_ok_def usb_ex_def)
  have e: "take 3 (drop 29 (reassembled_stream (reply_frame usb_ex) 32)) = [61, 96, 97]"
    by code_simp
  from send_command_reassembly [OF a b c d, of "replicate 29 7"]
  have "fst (snd (dirtyjtag_djtag1_spi_send_command env_ex usb_ex 29 3 (replicate 29 7))) =
      take (unat (3 :: 32 word)) (drop (unat (29 :: 32 word))
        (reassembled_stream (reply_frame usb_ex) (unat (29 :: 32 word) + unat (3 :: 32 word))))"
    by (rule conjunct1)
  then have "fst (snd (dirtyjtag_djtag1_spi_send_command env_ex usb_ex 29 3 (replicate 29 7))) =
      [61, 96, 97]"
    using e by simp
  moreover have "spec_num_chunks (unat (29 :: 32 word) + unat (3 :: 32 word)) = 2"
    by (simp add: spec_num_chunks_def)
  moreover have "reply_ok usb_ex 0" and "reply_ok usb_ex 1"
    by (simp_all add: reply_ok_def usb_ex_def)
  ultimately show ?thesis
    using a b c by blast
qed

subsection \<open>The bytes on the wire\<close>

lemma chunk_calls_nth:
  "i < k \<Longrightarrow>
   (concat (map (chunk_calls tx_buf len) [0..<k]) @ cs) ! (2 * i) =
     BulkCall dirtyjtag_write_endpoint (take 32 (command_buffer tx_buf len i)) 32 dirtyjtag_timeout"
proof (induction k arbitrary: cs)
  case 0
  then show ?case by simp
next
  case (Suc k)
  show ?case
  proof (cases "i < k")
    case True
    then show ?thesis
      using Suc.IH [of "chunk_calls tx_buf len k @ cs"] by simp
  next
    case False
    with Suc.prems have i: "i = k" by simp
    have "(concat (map (chunk_calls tx_buf len) [0..<Suc k]) @ cs) ! (2 * k) =
        (chunk_calls tx_buf len k @ cs) ! 0"
      by (simp add: nth_append length_chunk_calls)
    then show ?thesis
      by (simp only: i) (simp add: chunk_calls_def)
  qed
qed

lemma length_tx_buffer:
  assumes "unat writecnt + unat readcnt < 2 ^ 32" and "length writearr = unat writecnt"
  shows "length (tx_buffer g writecnt readcnt writearr) =
     30 * spec_num_chunks (unat writecnt + unat readcnt)"
  using num_xfer_cover [of "unat writecnt + unat readcnt"] assms(2)
  by (simp add: tx_buffer_def memcpy_def xfer_len_no_wrap [OF assms(1)] max_xfer_size_def
      num_xfer_spec)

lemma tx_buffer_nth:
  assumes "unat writecnt + unat readcnt < 2 ^ 32" and "length writearr = unat writecnt"
    and "p < 30 * spec_num_chunks (unat writecnt + unat readcnt)"
  shows "tx_buffer g writecnt readcnt writearr ! p =
     (if p < unat writecnt then writearr ! p else g p)"
  using assms(2,3)
  by (simp add: tx_buffer_def memcpy_def xfer_len_no_wrap [OF assms(1)] max_xfer_size_def
      num_xfer_spec nth_append)

text \<open>
  Claim C6, as stated, fails: the transmit buffer comes from \<^verbatim>\<open>malloc\<close> and only its
  first \<open>writecnt\<close> bytes are written before the loop copies from it. When the block held
  \<open>0xEE\<close> at allocation, a transaction that reads one byte sends \<open>0xEE\<close> at the
  position of that byte.
\<close>

theorem send_command_wire_bytes_counterexample:
  "sent (new_calls usb_ex
     (snd (snd (dirtyjtag_djtag1_spi_send_command env_ex usb_ex 0 1 []))) ! 0) ! 2 = 0xEE \<and>
   sent (new_calls usb_ex
     (snd (snd (dirtyjtag_djtag1_spi_send_command env_ex usb_ex 0 1 []))) ! 0) ! 2 \<noteq> 0"
  by code_simp

text \<open>
  Claim C6, amended. For a write buffer of \<open>w\<close> bytes and a read count whose sum with
  \<open>w\<close> fits an \<^verbatim>\<open>unsigned int\<close>, the frame sent for chunk \<open>i\<close> is the command buffer
  built from the transmit buffer, a function of the write buffer, the two counts, the chunk
  index and the contents \<open>g\<close> that the allocated transmit block had, and of nothing else
  (not of the replies). Its payload byte \<open>j\<close> is byte \<open>30 * i + j\<close> of the write buffer
  at a position below \<open>w\<close>, and at a position at or beyond \<open>w\<close> it is the byte the
  allocated block held there, which need not be zero.
\<close>

theorem send_command_wire_bytes:
  assumes "tx_malloc env = Some g" and "rx_malloc env = Some h"
    and "unat writecnt + unat readcnt < 2 ^ 32"
    and "length writearr = unat writecnt"
    and "i < spec_num_chunks (unat writecnt + unat readcnt)"
    and "j < spec_chunk_length (unat writecnt + unat readcnt) i"
  shows
    "sent (new_calls u
        (snd (snd (dirtyjtag_djtag1_spi_send_command env u writecnt readcnt writearr))) ! (2 * i)) =
       command_buffer (tx_buffer g writecnt readcnt writearr) (unat writecnt + unat readcnt) i \<and>
     sent (new_calls u
        (snd (snd (dirtyjtag_djtag1_spi_send_command env u writecnt readcnt writearr))) ! (2 * i))
       ! (2 + j) =
       (if 30 * i + j < unat writecnt then writearr ! (30 * i + j) else g (30 * i + j))"
proof -
  let ?tot = "unat writecnt + unat readcnt"
  let ?tx = "tx_buffer g writecnt readcnt writearr"
  let ?new = "new_calls u
     (snd (snd (dirtyjtag_djtag1_spi_send_command env u writecnt readcnt writearr)))"
  have len: "xfer_len writecnt readcnt = ?tot"
    using assms(3) by (rule xfer_len_no_wrap)
  have t: "txn_size ?tot i = spec_chunk_length ?tot i"
    using assms(5) by (rule txn_size_spec)
  have new: "?new = concat (map (chunk_calls ?tx ?tot) [0..<spec_num_chunks ?tot]) @ [reset_call]"
    by (simp add: send_command_eq [OF assms(1,2)] len num_xfer_spec del: upt_Suc)
  have ltx: "length ?tx = 30 * spec_num_chunks ?tot"
    using assms(3,4) by (rule length_tx_buffer)
  have "30 * i + 30 \<le> 30 * spec_num_chunks ?tot"
    using assms(5) by simp
  then have inb: "30 * i + txn_size ?tot i \<le> length ?tx"
    using txn_size_bounds(2) [of ?tot i] by (simp add: ltx)
  have s: "sent (?new ! (2 * i)) = command_buffer ?tx ?tot i"
    using chunk_calls_nth [OF assms(5), of ?tx ?tot "[reset_call]"] length_command_buffer [OF inb]
    by (simp add: new)
  have p: "30 * i + j < 30 * spec_num_chunks ?tot"
    using inb assms(6) by (simp add: ltx t)
  have "command_buffer ?tx ?tot i ! (2 + j) = ?tx ! (30 * i + j)"
    using inb assms(6) by (simp only: t [symmetric]) (rule command_buffer_nth_payload)
  also have "\<dots> = (if 30 * i + j < unat writecnt then writearr ! (30 * i + j) else g (30 * i + j))"
    using assms(3,4) p by (rule tx_buffer_nth)
  finally show ?thesis
    using s by simp
qed

theorem send_command_wire_bytes_witness:
  "tx_malloc env_ex = Some (\<lambda>_. 0xEE) \<and> rx_malloc env_ex = Some (\<lambda>_. 0xDD) \<and>
   unat (29 :: 32 word) + unat (3 :: 32 word) < 2 ^ 32 \<and>
   length (replicate 29 (7 :: byte)) = unat (29 :: 32 word) \<and>
   0 < spec_num_chunks (unat (29 :: 32 word) + unat (3 :: 32 word)) \<and>
   29 < spec_chunk_length (unat (29 :: 32 word) + unat (3 :: 32 word)) 0 \<and>
   sent (new_calls usb_ex
     (snd (snd (dirtyjtag_djtag1_spi_send_command env_ex usb_ex 29 3 (replicate 29 7)))) ! 0) ! 31
     = 0xEE"
proof -
  have a: "tx_malloc env_ex = Some (\<lambda>_. 0xEE)" and b: "rx_malloc env_ex = Some (\<lambda>_. 0xDD)"
    by (simp_all add: env_ex_def)
  have c: "unat (29 :: 32 word) + unat (3 :: 32 word) < 2 ^ 32"
    by simp
  have d: "length (replicate 29 (7 :: byte)) = unat (29 :: 32 word)"
    by simp
  have e: "0 < spec_num_chunks (unat (29 :: 32 word) + unat (3 :: 32 word))"
    by (simp add: spec_num_chunks_def)
  have f: "29 < spec_chunk_length (unat (29 :: 32 word) + unat (3 :: 32 word)) 0"
    by (simp add: spec_chunk_length_def spec_num_chunks_def)
  from send_command_wire_bytes [OF a b c d e f, of usb_ex, THEN conjunct2]
  have "sent (new_calls usb_ex
     (snd (snd (dirtyjtag_djtag1_spi_send_command env_ex usb_ex 29 3 (replicate 29 7)))) ! 0) ! 31
     = 0xEE"
    by simp
  with a b c d e f show ?thesis
    by blast
qed

subsection \<open>Transport failures\<close>

text \<open>
  Claim C3 describes what the helpers are written for, and the code misses it:
  \<^verbatim>\<open>dirtyjtag_send\<close> and \<^verbatim>\<open>dirtyjtag_receive\<close> report a failed or short transfer with
  \<open>-1\<close>, as \<^verbatim>\<open>dirtyjtag_spi_init\<close> checks, but the loop drops their results. On a
  transport where every bulk transfer fails, and on one whose reply is 31 bytes long, the
  helper returns \<open>-1\<close> and the command still runs all three bulk transfers and returns 0,
  in the first case with a byte of the uninitialised \<^verbatim>\<open>readout_buffer\<close> as its result.
\<close>

theorem send_command_ignores_transport_failure:
  "fst (dirtyjtag_send usb_dead (command_buffer (tx_buffer (\<lambda>_. 0xEE) 1 1 [0x9F]) 2 0) 32) = - 1 \<and>
   fst (dirtyjtag_djtag1_spi_send_command env_ex usb_dead 1 1 [0x9F]) = 0 \<and>
   fst (snd (dirtyjtag_djtag1_spi_send_command env_ex usb_dead 1 1 [0x9F])) = [0xCC] \<and>
   length (calls (snd (snd (dirtyjtag_djtag1_spi_send_command env_ex usb_dead 1 1 [0x9F])))) = 3 \<and>
   fst (dirtyjtag_receive
          (snd (dirtyjtag_send usb_short (command_buffer (tx_buffer (\<lambda>_. 0xEE) 1 1 [0x9F]) 2 0) 32))
          (replicate 32 0xCC) 32 32) = - 1 \<and>
   fst (dirtyjtag_djtag1_spi_send_command env_ex usb_short 1 1 [0x9F]) = 0 \<and>
   fst (snd (dirtyjtag_djtag1_spi_send_command env_ex usb_short 1 1 [0x9F])) = [0x11]"
  by code_simp

subsection \<open>The timeout\<close>

text \<open>
  Claim C9 follows the comment of line 44 (\<^verbatim>\<open>/* 100 ms */\<close>); the constant is
  \<^verbatim>\<open>100 * 10\<close>. Every send and every receive passes 1000 as the timeout argument of
  \<^verbatim>\<open>libusb_bulk_transfer\<close>, which libusb reads in milliseconds. The value is fixed, and
  it is not 100.
\<close>

theorem bulk_transfer_timeout_is_1000:
  "dirtyjtag_timeout = 1000 \<and> dirtyjtag_timeout \<noteq> 100 \<and>
   map timeout_arg (new_calls u (snd (dirtyjtag_send u data len))) = [1000] \<and>
   map timeout_arg (new_calls u (snd (snd (dirtyjtag_receive u data len expected)))) = [1000]"
  by (simp add: dirtyjtag_send_calls dirtyjtag_receive_effect [unfolded Let_def, THEN arg_cong [of _ _ snd]]
      Let_def dirtyjtag_timeout_def)

subsection \<open>The frequency parameter\<close>

lemma frequency_khz_examples:
  "frequency_khz (Some ''0'') = None"
  "frequency_khz (Some ''70000000'') = None"
  "frequency_khz (Some ''5xyz'') = None"
  "frequency_khz (Some ''100'') = None"
  "frequency_khz (Some ''100khz'') = Some 100"
  "frequency_khz (Some ''1mhz'') = Some 1000"
  by code_simp+

lemma init_commands_examples:
  "init_commands 100 = [0x04, 0x76, 0x70, 0x02, 0, 100, 0]"
  "init_commands 1000 = [0x04, 0x76, 0x70, 0x02, 0x03, 0xE8, 0]"
  by code_simp+

lemma init_rejects:
  assumes "0 \<le> libusb_init_ret e" and "device_opened e" and "claim_interface_ret e = 0"
    and "calloc_ok e" and "frequency_khz (Some s) = None"
  shows "dirtyjtag_spi_init (e\<lparr>frequency_param := Some s\<rparr>) u = (1, u)"
  using assms by (simp add: dirtyjtag_spi_init_def)

lemma init_sends:
  assumes "0 \<le> libusb_init_ret e" and "device_opened e" and "claim_interface_ret e = 0"
    and "calloc_ok e" and "frequency_khz (Some s) = Some freq"
  shows "new_calls u (snd (dirtyjtag_spi_init (e\<lparr>frequency_param := Some s\<rparr>) u)) =
     [BulkCall dirtyjtag_write_endpoint (init_commands freq) 7 dirtyjtag_timeout]"
proof -
  obtain c u' where s: "dirtyjtag_send u (init_commands freq) (length (init_commands freq)) = (c, u')"
    by (cases "dirtyjtag_send u (init_commands freq) (length (init_commands freq))")
  have l: "length (init_commands freq) = 7"
    by (simp add: init_commands_def)
  have "u' = u\<lparr>calls := calls u @
      [BulkCall dirtyjtag_write_endpoint (init_commands freq) 7 dirtyjtag_timeout]\<rparr>"
    using dirtyjtag_send_calls [of u "init_commands freq" "length (init_commands freq)"] s
    by (simp add: l)
  then show ?thesis
    using assms by (simp add: dirtyjtag_spi_init_def s)
qed

text \<open>
  Claim C4, as stated, fails for \<open>''100''\<close>: a number without a unit is in hertz, and line
  279 rejects everything below 1 kHz. The initialisation returns 1 and requests no bulk
  transfer.
\<close>

theorem init_frequency_100_counterexample:
  "frequency_khz (Some ''100'') \<noteq> Some 100 \<and>
   fst (dirtyjtag_spi_init (init_ex\<lparr>frequency_param := Some ''100''\<rparr>) usb_ex) = 1 \<and>
   new_calls usb_ex (snd (dirtyjtag_spi_init (init_ex\<lparr>frequency_param := Some ''100''\<rparr>) usb_ex)) = []"
proof -
  have "dirtyjtag_spi_init (init_ex\<lparr>frequency_param := Some ''100''\<rparr>) usb_ex = (1, usb_ex)"
    by (rule init_rejects) (simp_all add: init_ex_def frequency_khz_examples)
  then show ?thesis
    by (simp add: frequency_khz_examples new_calls_def)
qed

text \<open>
  Claim C4, amended. Once the device is open, its interface claimed and the driver data
  allocated, the frequency values \<open>''0''\<close>, \<open>''70000000''\<close>, \<open>''5xyz''\<close> and \<open>''100''\<close> each
  make the initialisation return 1 with the transport untouched (no bulk transfer is
  requested), while \<open>''100khz''\<close> and \<open>''1mhz''\<close> resolve to 100 and 1000 kHz, which the
  one frame sent carries, high byte first, after the frequency command.
\<close>

theorem init_frequency_validation:
  assumes "0 \<le> libusb_init_ret e" and "device_opened e" and "claim_interface_ret e = 0"
    and "calloc_ok e"
  shows
    "dirtyjtag_spi_init (e\<lparr>frequency_param := Some ''0''\<rparr>) u = (1, u) \<and>
     dirtyjtag_spi_init (e\<lparr>frequency_param := Some ''70000000''\<rparr>) u = (1, u) \<and>
     dirtyjtag_spi_init (e\<lparr>frequency_param := Some ''5xyz''\<rparr>) u = (1, u) \<and>
     dirtyjtag_spi_init (e\<lparr>frequency_param := Some ''100''\<rparr>) u = (1, u) \<and>
     frequency_khz (Some ''100khz'') = Some 100 \<and>
     frequency_khz (Some ''1mhz'') = Some 1000 \<and>
     new_calls u (snd (dirtyjtag_spi_init (e\<lparr>frequency_param := Some ''100khz''\<rparr>) u)) =
       [BulkCall dirtyjtag_write_endpoint
          [CMD_SETSIG, 0x76, 0x70, CMD_FREQ, 0, 100, CMD_STOP] 7 dirtyjtag_timeout] \<and>
     new_calls u (snd (dirtyjtag_spi_init (e\<lparr>frequency_param := Some ''1mhz''\<rparr>) u)) =
       [BulkCall dirtyjtag_write_endpoint
          [CMD_SETSIG, 0x76, 0x70, CMD_FREQ, 0x03, 0xE8, CMD_STOP] 7 dirtyjtag_timeout]"
  using init_rejects [OF assms frequency_khz_examples(1), of u]
    init_rejects [OF assms frequency_khz_examples(2), of u]
    init_rejects [OF assms frequency_khz_examples(3), of u]
    init_rejects [OF assms frequency_khz_examples(4), of u]
    init_sends [OF assms frequency_khz_examples(5), of u]
    init_sends [OF assms frequency_khz_examples(6), of u]
  by (simp add: frequency_khz_examples init_commands_examples CMD_SETSIG_def CMD_FREQ_def
      CMD_STOP_def)

theorem init_frequency_validation_witness:
  "0 \<le> libusb_init_ret init_ex \<and> device_opened init_ex \<and> claim_interface_ret init_ex = 0 \<and>
   calloc_ok init_ex \<and>
   dirtyjtag_spi_init (init_ex\<lparr>frequency_param := Some ''5xyz''\<rparr>) usb_ex = (1, usb_ex) \<and>
   new_calls usb_ex (snd (dirtyjtag_spi_init (init_ex\<lparr>frequency_param := Some ''1mhz''\<rparr>) usb_ex)) =
     [BulkCall 1 [4, 0x76, 0x70, 2, 0x03, 0xE8, 0] 7 1000]"
proof -
  have a: "0 \<le> libusb_init_ret init_ex" and b: "device_opened init_ex"
    and c: "claim_interface_ret init_ex = 0" and d: "calloc_ok init_ex"
    by (simp_all add: init_ex_def)
  note th = init_frequency_validation [OF a b c d, of usb_ex]
  from th have "dirtyjtag_spi_init (init_ex\<lparr>frequency_param := Some ''5xyz''\<rparr>) usb_ex = (1, usb_ex)"
    by blast
  moreover from th have
    "new_calls usb_ex (snd (dirtyjtag_spi_init (init_ex\<lparr>frequency_param := Some ''1mhz''\<rparr>) usb_ex)) =
       [BulkCall dirtyjtag_write_endpoint
          [CMD_SETSIG, 0x76, 0x70, CMD_FREQ, 0x03, 0xE8, CMD_STOP] 7 dirtyjtag_timeout]"
    by blast
  ultimately show ?thesis
    using a b c d
    by (simp add: CMD_SETSIG_def CMD_FREQ_def CMD_STOP_def dirtyjtag_write_endpoint_def
        dirtyjtag_timeout_def)
qed

subsection \<open>The copies stay inside their buffers\<close>

text \<open>
  When \<open>writecnt + readcnt\<close> fits an \<^verbatim>\<open>unsigned int\<close> and \<^verbatim>\<open>writearr\<close> holds
  \<open>writecnt\<close> bytes, the copies of lines 138, 148, 151 and 153 stay inside their buffers.
  When the sum wraps, the copy of line 153 reads beyond the receive block: the C function
  has no defined result there, which is why the theorems on chunking and reassembly ask
  for a sum that fits.
\<close>

lemma num_xfer_upper: "30 * num_xfer len \<le> len + 29"
  by (simp add: num_xfer_def max_xfer_size_def)

lemma send_command_copies_in_bounds:
  assumes "unat writecnt + unat readcnt < 2 ^ 32" and "unat writecnt \<le> length writearr"
  shows "memcpy_in_bounds (map g [0..<max_xfer_size * num_xfer (xfer_len writecnt readcnt)])
           0 writearr 0 (unat writecnt)"
    and "i < num_xfer (xfer_len writecnt readcnt) \<Longrightarrow>
         memcpy_in_bounds ((CMD_XFER # replicate 31 0)[1 := b]) 2
           (tx_buffer g writecnt readcnt writearr) (30 * i) (txn_size (xfer_len writecnt readcnt) i)"
    and "i < num_xfer (xfer_len writecnt readcnt) \<Longrightarrow>
         length rx_buf = max_xfer_size * num_xfer (xfer_len writecnt readcnt) \<Longrightarrow>
         memcpy_in_bounds rx_buf (i * 30) (reply_buffer env u i) 0
           (txn_size (xfer_len writecnt readcnt) i)"
    and "unat writecnt + unat readcnt \<le> max_xfer_size * num_xfer (xfer_len writecnt readcnt)"
proof -
  let ?len = "xfer_len writecnt readcnt"
  have len: "?len = unat writecnt + unat readcnt"
    using assms(1) by (rule xfer_len_no_wrap)
  have cover: "unat writecnt + unat readcnt \<le> 30 * num_xfer ?len"
    using num_xfer_cover [of ?len] by (simp only: len)
  then show "unat writecnt + unat readcnt \<le> max_xfer_size * num_xfer ?len"
    by (simp add: max_xfer_size_def)
  from cover assms(2)
  show "memcpy_in_bounds (map g [0..<max_xfer_size * num_xfer ?len]) 0 writearr 0 (unat writecnt)"
    by (simp add: memcpy_in_bounds_def max_xfer_size_def)
  have ltx: "length (tx_buffer g writecnt readcnt writearr) = 30 * num_xfer ?len"
    using cover assms(2) by (simp add: tx_buffer_def memcpy_def max_xfer_size_def)
  show "memcpy_in_bounds ((CMD_XFER # replicate 31 0)[1 := b]) 2
      (tx_buffer g writecnt readcnt writearr) (30 * i) (txn_size ?len i)"
    if "i < num_xfer ?len"
    using that txn_size_bounds(2) [of ?len i] by (simp add: memcpy_in_bounds_def ltx)
  show "memcpy_in_bounds rx_buf (i * 30) (reply_buffer env u i) 0 (txn_size ?len i)"
    if "i < num_xfer ?len" and "length rx_buf = max_xfer_size * num_xfer ?len"
    using that txn_size_bounds(2) [of ?len i]
    by (simp add: memcpy_in_bounds_def length_reply_buffer max_xfer_size_def)
qed

lemma send_command_wrap_out_of_bounds:
  assumes "2 ^ 32 \<le> unat writecnt + unat readcnt"
  shows "max_xfer_size * num_xfer (xfer_len writecnt readcnt) < unat writecnt + unat readcnt"
proof -
  have w: "unat writecnt < 2 ^ 32" and r: "unat readcnt < 2 ^ 32"
    using unsigned_less [of writecnt] unsigned_less [of readcnt] by simp_all
  have "xfer_len writecnt readcnt = (unat writecnt + unat readcnt) mod 2 ^ 32"
    by (simp add: xfer_len_def unat_word_ariths)
  also have "\<dots> = unat writecnt + unat readcnt - 2 ^ 32"
    using assms w r by (simp add: mod_if)
  finally have "xfer_len writecnt readcnt + 2 ^ 32 = unat writecnt + unat readcnt"
    using assms by simp
  then show ?thesis
    using num_xfer_upper [of "xfer_len writecnt readcnt"] by (simp add: max_xfer_size_def)
qed

subsection \<open>The number of chunks is the ceiling\<close>

text \<open>
  \<open>spec_num_chunks tot\<close> is \<open>ceil (tot / 30)\<close>: thirty times it reaches \<open>tot\<close>, and no
  smaller number does.
\<close>

lemma spec_num_chunks_ceiling:
  "tot \<le> 30 * spec_num_chunks tot" "30 * spec_num_chunks tot < tot + 30"
  using num_xfer_cover [of tot] num_xfer_upper [of tot] by (simp_all add: num_xfer_spec)

lemma spec_num_chunks_least: "tot \<le> 30 * n \<Longrightarrow> spec_num_chunks tot \<le> n"
  using spec_num_chunks_ceiling(2) [of tot] by simp

end
